theory Spec2Isabelle
  imports Complex_Main
begin

section \<open>The movement dialog (fibsem/ui/FibsemMovementUI.py)\<close>

subsection \<open>Enumerations, errors, collaborator data\<close>

text \<open>
  \<^verbatim>\<open>MovementMode\<close> is the enum of lines 15--18. \<^verbatim>\<open>BeamType\<close> is imported from
  \<^verbatim>\<open>fibsem.structures\<close>; its two members are the ones the dialog and the tests name.
\<close>

datatype MovementMode = Stable | Eucentric | Needle

datatype BeamType = ELECTRON | ION

text \<open>The exceptions of Python that the modelled code can raise.\<close>

datatype error = KeyError | ValueError | AttributeError | FormatError | TypeError | RuntimeError

text \<open>
  An \<^verbatim>\<open>AdornedImage\<close> of the vendor library, as far as the dialog reads it: the shape
  \<^verbatim>\<open>(rows, columns)\<close> of its \<^verbatim>\<open>data\<close> array.
\<close>

record AdornedImage =
  data_shape :: "nat \<times> nat"

text \<open>
  \<^verbatim>\<open>StagePosition\<close> and \<^verbatim>\<open>MoveSettings\<close> of the vendor library. A keyword that the
  caller leaves out is \<^verbatim>\<open>None\<close>. The axes \<^verbatim>\<open>x, y, z, r, t\<close> are the fields \<open>pos_x\<close> to
  \<open>pos_t\<close>, so that the one-letter names stay free for variables.
\<close>

record StagePosition =
  pos_x :: "real option"
  pos_y :: "real option"
  pos_z :: "real option"
  pos_r :: "real option"
  pos_t :: "real option"
  coordinate_system :: "string option"

record MoveSettings =
  rotate_compucentric :: bool
  tilt_compucentric :: bool

text \<open>A \<^verbatim>\<open>QDoubleSpinBox\<close>: its range and its value, which Qt keeps inside the range.\<close>

record DoubleSpinBox =
  minimum :: real
  maximum :: real
  sb_value :: real

definition setMinimum :: "real \<Rightarrow> DoubleSpinBox \<Rightarrow> DoubleSpinBox" where
  "setMinimum m b =
     \<lparr>minimum = m, maximum = max (maximum b) m, sb_value = max (sb_value b) m\<rparr>"

definition setMaximum :: "real \<Rightarrow> DoubleSpinBox \<Rightarrow> DoubleSpinBox" where
  "setMaximum m b =
     \<lparr>minimum = min (minimum b) m, maximum = m, sb_value = min (sb_value b) m\<rparr>"

definition setValue :: "real \<Rightarrow> DoubleSpinBox \<Rightarrow> DoubleSpinBox" where
  "setValue v b = b\<lparr>sb_value := max (minimum b) (min (maximum b) v)\<rparr>"

text \<open>
  The three components of the tuple that \<^verbatim>\<open>get_data_from_coord\<close> returns, as values of
  one type, so that a tuple is a list and unpacking it can fail as it does in Python.
\<close>

datatype pyval =
    PyBeam "BeamType option"
  | PyImage "AdornedImage option"
  | PyCoords "real \<times> real"

text \<open>
  What a handler does to the world outside the dialog object, in the order it does it:
  notices shown to the user, log lines, calls into the motion, acquisition and alignment
  collaborators, and calls on the viewer.
\<close>

datatype effect =
    ShowInfo string
  | LogInfo string
  | LogCoords "real \<times> real" BeamType
  | LogCoordType "real \<times> real" string
  | LogBeamType pyval
  | ViewerHideDocks
  | LogMovement real real
  | LogMovingEucentricly BeamType
  | LogMovingStably BeamType
  | LogChangedMode MovementMode
  | MoveStageEucentricCorrection real
  | MoveStageRelativeWithCorrectedMovement real real BeamType
  | AbsoluteMove StagePosition MoveSettings
  | AutoEucentricCorrection
  | TakeReferenceImages real
  | ViewerLayersClear
  | ViewerAddImage "nat \<times> nat"
  | DialogClose

fun is_stage_move :: "effect \<Rightarrow> bool" where
  "is_stage_move (MoveStageEucentricCorrection _) = True"
| "is_stage_move (MoveStageRelativeWithCorrectedMovement _ _ _) = True"
| "is_stage_move (AbsoluteMove _ _) = True"
| "is_stage_move AutoEucentricCorrection = True"
| "is_stage_move _ = False"

text \<open>
  The collaborators of one handler call. \<^verbatim>\<open>acquire.take_reference_images\<close> either
  returns the electron and the ion image or raises; \<^verbatim>\<open>conversions.pixel_to_realspace_coordinate\<close>
  is a pure function of an \<^verbatim>\<open>(x, y)\<close> pixel coordinate and an image; the unit factors come
  from \<^verbatim>\<open>fibsem.constants\<close>. The calls into \<^verbatim>\<open>fibsem.movement\<close>, \<^verbatim>\<open>fibsem.alignment\<close>, the
  stage and the viewer are recorded as effects and taken to return.
\<close>

record env =
  take_reference_images :: "error + (AdornedImage \<times> AdornedImage)"
  pixel_to_realspace_coordinate :: "real \<times> real \<Rightarrow> AdornedImage \<Rightarrow> real \<times> real"
  MICRON_TO_METRE :: real
  METRE_TO_MICRON :: real

subsection \<open>The dialog object\<close>

text \<open>
  The widgets come from the generated \<^verbatim>\<open>Ui_Dialog\<close>; the other fields are the attributes
  that \<^verbatim>\<open>__init__\<close> and \<^verbatim>\<open>update_displays\<close> assign. The three image attributes exist
  only once \<^verbatim>\<open>update_displays\<close> has assigned them: \<open>None\<close> here is "no such attribute".
  \<open>image\<close> holds \<^verbatim>\<open>self.image.data.shape\<close>, which is all that is read of the composite.
  \<^verbatim>\<open>destination_points\<close> is assigned once and never read, and \<^verbatim>\<open>microscope\<close>, \<^verbatim>\<open>viewer\<close>
  and the rest of \<^verbatim>\<open>settings\<close> are only handed on to the collaborators; they have no field.
\<close>

record Ui_Dialog =
  doubleSpinBox_hfw :: DoubleSpinBox
  doubleSpinBox_tilt_degrees :: DoubleSpinBox
  comboBox_movement_mode :: "string list \<times> string"
  comboBox_needle_coordinate :: "string list \<times> string"
  label_message :: string
  needle_coordinate_visible :: bool
  tilt_widgets_visible :: bool
  pushButton_tilt_stage_enabled :: bool
  pushButton_tilt_stage_connected :: bool

record FibsemMovementUI = Ui_Dialog +
  settings_image_hfw :: real
  msg_type :: "string option"
  msg :: "string option"
  movement_mode :: MovementMode
  tilt_movement_enabled :: bool
  eb_image :: "AdornedImage option"
  ib_image :: "AdornedImage option"
  image :: "(nat \<times> nat) option"

text \<open>\<^verbatim>\<open>comboBox.currentText()\<close>, and \<^verbatim>\<open>addItems\<close> on a combo box (the first item added
  to an empty box becomes the current one).\<close>

definition currentText :: "string list \<times> string \<Rightarrow> string" where
  "currentText cb = snd cb"

definition addItems :: "string list \<Rightarrow> string list \<times> string \<Rightarrow> string list \<times> string" where
  "addItems xs cb =
     (case fst cb of
        [] \<Rightarrow> (xs, (case xs of [] \<Rightarrow> snd cb | a # _ \<Rightarrow> a))
      | _ # _ \<Rightarrow> (fst cb @ xs, snd cb))"

text \<open>\<^verbatim>\<open>MovementMode[name]\<close>: lookup of an enum member by name, \<^verbatim>\<open>KeyError\<close> otherwise.\<close>

definition mode_name :: "MovementMode \<Rightarrow> string" where
  "mode_name m = (case m of Stable \<Rightarrow> ''Stable'' | Eucentric \<Rightarrow> ''Eucentric'' | Needle \<Rightarrow> ''Needle'')"

definition MovementMode_of_name :: "string \<Rightarrow> error + MovementMode" where
  "MovementMode_of_name n =
     (if n = ''Stable'' then Inr Stable
      else if n = ''Eucentric'' then Inr Eucentric
      else if n = ''Needle'' then Inr Needle
      else Inl KeyError)"

subsection \<open>\<^verbatim>\<open>get_data_from_coord\<close> (lines 99--116)\<close>

text \<open>
  \<open>coords\<close> is \<^verbatim>\<open>(row, column)\<close>, the numbers that \<^verbatim>\<open>layer.world_to_data\<close> returns, taken
  as reals (whole pixel indices are a special case); the shape is a pair of naturals. With \<^verbatim>\<open>self.image.data.shape = (H, W)\<close> the source
  computes \<^verbatim>\<open>eb_shape = (H, W // 2)\<close> and \<^verbatim>\<open>ib_shape = (H, W)\<close>. The second test
  compares the column with \<^verbatim>\<open>eb_shape[0]\<close>, which is \<open>H\<close>.
\<close>

definition get_data_from_coord ::
  "FibsemMovementUI \<Rightarrow> real \<times> real \<Rightarrow>
     error + (BeamType option \<times> AdornedImage option \<times> (real \<times> real))" where
  "get_data_from_coord self coords =
     (case image self of
        None \<Rightarrow> Inl AttributeError
      | Some shp \<Rightarrow>
          (let eb_shape = (fst shp, snd shp div 2);
               ib_shape = (fst shp, snd shp)
           in if (fst coords > 0 \<and> fst coords < real (fst eb_shape))
                 \<and> (snd coords > 0 \<and> snd coords < real (snd eb_shape))
              then (case eb_image self of
                      None \<Rightarrow> Inl AttributeError
                    | Some adorned_image \<Rightarrow> Inr (Some ELECTRON, Some adorned_image, coords))
              else if (fst coords > 0 \<and> fst coords < real (fst ib_shape))
                      \<and> (snd coords > real (fst eb_shape) \<and> snd coords < real (snd ib_shape))
              then (case ib_image self of
                      None \<Rightarrow> Inl AttributeError
                    | Some adorned_image \<Rightarrow>
                        Inr (Some ION, Some adorned_image,
                             (fst coords, snd coords - real (snd ib_shape div 2))))
              else Inr (None, None, coords)))"


subsection \<open>\<^verbatim>\<open>update_displays\<close> (lines 68--97)\<close>

text \<open>
  \<^verbatim>\<open>np.concatenate([a, b], axis=1)\<close> on the shapes of two 2-D arrays: the row counts
  must agree.
\<close>

definition concatenate_axis1 :: "nat \<times> nat \<Rightarrow> nat \<times> nat \<Rightarrow> error + (nat \<times> nat)" where
  "concatenate_axis1 a b =
     (if fst a = fst b then Inr (fst a, snd a + snd b) else Inl ValueError)"

text \<open>
  Everything is inside one \<^verbatim>\<open>try\<close>; any exception ends in a notice (whose text carries
  the traceback, left out here). Assignments made before the exception stay.
\<close>

definition unable_msg :: string where
  "unable_msg = ''Unable to update movement image''"

definition update_displays :: "env \<Rightarrow> FibsemMovementUI \<Rightarrow> FibsemMovementUI \<times> effect list" where
  "update_displays e self =
     (let hfw = sb_value (doubleSpinBox_hfw self) * MICRON_TO_METRE e;
          self1 = self\<lparr>settings_image_hfw := hfw\<rparr>
      in case take_reference_images e of
           Inl err \<Rightarrow> (self1, [TakeReferenceImages hfw, ShowInfo unable_msg])
         | Inr (eb, ib) \<Rightarrow>
             (let self2 = self1\<lparr>eb_image := Some eb, ib_image := Some ib\<rparr>
              in case concatenate_axis1 (data_shape eb) (data_shape ib) of
                   Inl err \<Rightarrow> (self2, [TakeReferenceImages hfw, ShowInfo unable_msg])
                 | Inr shp \<Rightarrow>
                     (self2\<lparr>image := Some shp\<rparr>,
                      [TakeReferenceImages hfw, ViewerLayersClear, ViewerAddImage shp])))"

subsection \<open>\<^verbatim>\<open>_single_click\<close> (lines 118--130)\<close>

definition tuple3 :: "BeamType option \<times> AdornedImage option \<times> (real \<times> real) \<Rightarrow> pyval list" where
  "tuple3 res = (case res of (b, a, c) \<Rightarrow> [PyBeam b, PyImage a, PyCoords c])"

text \<open>\<^verbatim>\<open>p, q = tup\<close>: a \<^verbatim>\<open>ValueError\<close> unless the tuple has exactly two components.\<close>

definition unpack2 :: "pyval list \<Rightarrow> error + (pyval \<times> pyval)" where
  "unpack2 tup = (case tup of [p, q] \<Rightarrow> Inr (p, q) | _ \<Rightarrow> Inl ValueError)"

text \<open>
  \<open>event_type\<close> is \<^verbatim>\<open>event.type\<close> and \<open>coords\<close> is
  \<^verbatim>\<open>layer.world_to_data(event.position)\<close>.
\<close>

definition single_click ::
  "FibsemMovementUI \<Rightarrow> string \<Rightarrow> real \<times> real \<Rightarrow> error + (FibsemMovementUI \<times> effect list)" where
  "single_click self event_type coords =
     (if event_type = ''mouse_press'' \<and> movement_mode self = Needle
      then (case get_data_from_coord self coords of
              Inl err \<Rightarrow> Inl err
            | Inr res \<Rightarrow>
                (case unpack2 (tuple3 res) of
                   Inl err \<Rightarrow> Inl err
                 | Inr (beam_type, adorned_image) \<Rightarrow>
                     (let coord_type = currentText (comboBox_needle_coordinate self)
                      in Inr (self, [LogInfo ''Layer, Event'',
                                     LogCoordType coords coord_type,
                                     LogBeamType beam_type]))))
      else Inr (self, []))"

subsection \<open>\<^verbatim>\<open>_double_click\<close> (lines 132--179)\<close>

definition outside_msg :: string where
  "outside_msg = ''Clicked outside image dimensions. Please click inside the image to move.''"

definition double_click ::
  "env \<Rightarrow> FibsemMovementUI \<Rightarrow> real \<times> real \<Rightarrow> error + (FibsemMovementUI \<times> effect list)" where
  "double_click e self coords0 =
     (case get_data_from_coord self coords0 of
        Inl err \<Rightarrow> Inl err
      | Inr (beam_type, adorned_image, coords) \<Rightarrow>
          (case beam_type of
             None \<Rightarrow> Inr (self, [ShowInfo outside_msg])
           | Some bt \<Rightarrow>
               (case adorned_image of
                  None \<Rightarrow> Inl AttributeError
                | Some img \<Rightarrow>
                    (case pixel_to_realspace_coordinate e (snd coords, fst coords) img of
                       (dx, dy) \<Rightarrow>
                         (case MovementMode_of_name (currentText (comboBox_movement_mode self)) of
                            Inl err \<Rightarrow> Inl err
                          | Inr m \<Rightarrow>
                              (let self1 = self\<lparr>movement_mode := m\<rparr>;
                                   move =
                                     (if bt = ION \<and> movement_mode self1 = Eucentric
                                      then [LogMovingEucentricly bt,
                                            MoveStageEucentricCorrection (- dy)]
                                      else [LogMovingStably bt,
                                            MoveStageRelativeWithCorrectedMovement dx dy bt])
                               in case update_displays e self1 of
                                    (self2, es) \<Rightarrow>
                                      Inr (self2,
                                           [LogCoords coords bt, LogMovement dx dy] @ move @ es)))))))"

subsection \<open>\<^verbatim>\<open>set_message\<close> (lines 232--246)\<close>

definition msg_dict :: "(string \<times> string) list" where
  "msg_dict =
     [(''eucentric'', ''Please centre a feature in both Beam views (Double click to move). ''),
      (''alignment'', ''Please centre the lamella in the Ion Beam, and tilt so the lamella face is perpendicular to the Ion Beam.'')]"

text \<open>\<^verbatim>\<open>msg_dict[msg_type]\<close>; \<^verbatim>\<open>None\<close> is not a key of the table.\<close>

definition msg_dict_lookup :: "string option \<Rightarrow> error + string" where
  "msg_dict_lookup k =
     (case k of
        None \<Rightarrow> Inl KeyError
      | Some s \<Rightarrow> (case map_of msg_dict s of None \<Rightarrow> Inl KeyError | Some v \<Rightarrow> Inr v))"

definition eucentric_instruction :: string where
  "eucentric_instruction = ''Centre a feature in the Electron Beam, then double click the same feature in the Ion Beam.''"

definition set_message ::
  "FibsemMovementUI \<Rightarrow> string option \<Rightarrow> string option \<Rightarrow> error + FibsemMovementUI" where
  "set_message self mtype m =
     (case (case m of None \<Rightarrow> msg_dict_lookup mtype | Some s \<Rightarrow> Inr s) of
        Inl err \<Rightarrow> Inl err
      | Inr m1 \<Rightarrow>
          (let self1 = (if movement_mode self = Eucentric
                        then self\<lparr>label_message := eucentric_instruction\<rparr> else self);
               self2 = (if movement_mode self1 = Stable
                        then self1\<lparr>label_message := m1\<rparr> else self1)
           in Inr self2))"

subsection \<open>\<^verbatim>\<open>setup_connections\<close> and \<^verbatim>\<open>movement_mode_changed\<close> (lines 181--230)\<close>

definition setup_connections :: "env \<Rightarrow> FibsemMovementUI \<Rightarrow> FibsemMovementUI \<times> effect list" where
  "setup_connections e self =
     (let hfw_box =
            setValue (settings_image_hfw self * METRE_TO_MICRON e)
              (setMaximum (900 / 1000000 * METRE_TO_MICRON e)
                 (setMinimum (30 / 1000000 * METRE_TO_MICRON e) (doubleSpinBox_hfw self)));
          DESTINATION_MODE = (movement_mode self = Needle);
          tilt_box = setMaximum 25 (setMinimum 0 (doubleSpinBox_tilt_degrees self))
      in (self\<lparr>doubleSpinBox_hfw := hfw_box,
                comboBox_movement_mode := addItems (map mode_name [Stable, Eucentric, Needle]) ([], []),
                comboBox_needle_coordinate :=
                  addItems [''Source'', ''Destination''] (comboBox_needle_coordinate self),
                needle_coordinate_visible := DESTINATION_MODE,
                doubleSpinBox_tilt_degrees := tilt_box,
                tilt_widgets_visible := tilt_movement_enabled self,
                pushButton_tilt_stage_enabled := tilt_movement_enabled self,
                pushButton_tilt_stage_connected :=
                  (pushButton_tilt_stage_connected self \<or> tilt_movement_enabled self)\<rparr>,
          [LogInfo ''setup connections'']))"

definition movement_mode_changed ::
  "FibsemMovementUI \<Rightarrow> error + (FibsemMovementUI \<times> effect list)" where
  "movement_mode_changed self =
     (case MovementMode_of_name (currentText (comboBox_movement_mode self)) of
        Inl err \<Rightarrow> Inl err
      | Inr m \<Rightarrow>
          (let self1 = self\<lparr>movement_mode := m\<rparr>
           in case set_message self1 (msg_type self1) (msg self1) of
                Inl err \<Rightarrow> Inl err
              | Inr self2 \<Rightarrow>
                  Inr (self2\<lparr>needle_coordinate_visible := (movement_mode self2 = Needle)\<rparr>,
                       [LogChangedMode m])))"

subsection \<open>The buttons (lines 248--282)\<close>

text \<open>\<^verbatim>\<open>np.deg2rad\<close>, on the reals.\<close>

definition deg2rad :: "real \<Rightarrow> real" where
  "deg2rad d = d * pi / 180"

definition take_image_button_pressed ::
  "env \<Rightarrow> FibsemMovementUI \<Rightarrow> FibsemMovementUI \<times> effect list" where
  "take_image_button_pressed e self = update_displays e self"

definition continue_button_pressed :: "FibsemMovementUI \<Rightarrow> FibsemMovementUI \<times> effect list" where
  "continue_button_pressed self = (self, [LogInfo ''continue button pressed'', DialogClose])"

definition stage_tilt :: "env \<Rightarrow> FibsemMovementUI \<Rightarrow> FibsemMovementUI \<times> effect list" where
  "stage_tilt e self =
     (let stage_tilt_rad = deg2rad (sb_value (doubleSpinBox_tilt_degrees self));
          move_settings = \<lparr>rotate_compucentric = True, tilt_compucentric = True\<rparr>;
          stage_position = \<lparr>pos_x = None, pos_y = None, pos_z = None, pos_r = None,
                            pos_t = Some stage_tilt_rad,
                            coordinate_system = None\<rparr>
      in case update_displays e self of
           (self1, es) \<Rightarrow> (self1, AbsoluteMove stage_position move_settings # es))"

definition auto_eucentric_button_pressed ::
  "env \<Rightarrow> FibsemMovementUI \<Rightarrow> FibsemMovementUI \<times> effect list" where
  "auto_eucentric_button_pressed e self =
     (case update_displays e self of (self1, es) \<Rightarrow> (self1, AutoEucentricCorrection # es))"


definition pushButton_tilt_stage_clicked ::
  "env \<Rightarrow> FibsemMovementUI \<Rightarrow> FibsemMovementUI \<times> effect list" where
  "pushButton_tilt_stage_clicked e self =
     (if pushButton_tilt_stage_enabled self \<and> pushButton_tilt_stage_connected self
      then stage_tilt e self else (self, []))"

subsection \<open>\<^verbatim>\<open>__init__\<close> (lines 31--66)\<close>

text \<open>
  \<open>ui\<close> is the widget state that \<^verbatim>\<open>setupUi\<close> leaves, \<open>hfw\<close> is
  \<^verbatim>\<open>settings.image.hfw\<close>, and \<open>viewer\<close> says whether a viewer was passed (the default
  is \<^verbatim>\<open>None\<close>, on which \<^verbatim>\<open>self.viewer.window\<close> raises).
\<close>

definition init ::
  "env \<Rightarrow> Ui_Dialog \<Rightarrow> real \<Rightarrow> string option \<Rightarrow> string option \<Rightarrow> bool \<Rightarrow>
     error + (FibsemMovementUI \<times> effect list)" where
  "init e ui hfw mtype m viewer =
     (if \<not> viewer then Inl AttributeError
      else
        (let self0 =
               \<lparr>doubleSpinBox_hfw = doubleSpinBox_hfw ui,
                doubleSpinBox_tilt_degrees = doubleSpinBox_tilt_degrees ui,
                comboBox_movement_mode = comboBox_movement_mode ui,
                comboBox_needle_coordinate = comboBox_needle_coordinate ui,
                label_message = label_message ui,
                needle_coordinate_visible = needle_coordinate_visible ui,
                tilt_widgets_visible = tilt_widgets_visible ui,
                pushButton_tilt_stage_enabled = pushButton_tilt_stage_enabled ui,
                pushButton_tilt_stage_connected = pushButton_tilt_stage_connected ui,
                settings_image_hfw = hfw,
                msg_type = mtype,
                msg = m,
                movement_mode = Stable,
                tilt_movement_enabled = (mtype = Some ''alignment''),
                eb_image = None,
                ib_image = None,
                image = None\<rparr>
         in case setup_connections e self0 of
              (self1, es1) \<Rightarrow>
                (case set_message self1 (msg_type self1) (msg self1) of
                   Inl err \<Rightarrow> Inl err
                 | Inr self2 \<Rightarrow>
                     (case update_displays e self2 of
                        (self3, es3) \<Rightarrow> Inr (self3, ViewerHideDocks # es1 @ es3)))))"

subsection \<open>Example inputs\<close>

text \<open>A dialog showing a composite of two \<open>h \<times> w\<close> images, in the given mode.\<close>

definition ui0 :: Ui_Dialog where
  "ui0 =
     \<lparr>doubleSpinBox_hfw = \<lparr>minimum = 0, maximum = 99, sb_value = 0\<rparr>,
      doubleSpinBox_tilt_degrees = \<lparr>minimum = 0, maximum = 99, sb_value = 0\<rparr>,
      comboBox_movement_mode = ([], []),
      comboBox_needle_coordinate = ([], []),
      label_message = [],
      needle_coordinate_visible = False,
      tilt_widgets_visible = False,
      pushButton_tilt_stage_enabled = False,
      pushButton_tilt_stage_connected = False\<rparr>"

definition example_dialog :: "nat \<Rightarrow> nat \<Rightarrow> MovementMode \<Rightarrow> FibsemMovementUI" where
  "example_dialog h w m =
     \<lparr>doubleSpinBox_hfw = \<lparr>minimum = 30, maximum = 900, sb_value = 150\<rparr>,
      doubleSpinBox_tilt_degrees = \<lparr>minimum = 0, maximum = 25, sb_value = 0\<rparr>,
      comboBox_movement_mode = ([''Stable'', ''Eucentric'', ''Needle''], mode_name m),
      comboBox_needle_coordinate = ([''Source'', ''Destination''], ''Source''),
      label_message = [],
      needle_coordinate_visible = (m = Needle),
      tilt_widgets_visible = False,
      pushButton_tilt_stage_enabled = False,
      pushButton_tilt_stage_connected = False,
      settings_image_hfw = 150 / 1000000,
      msg_type = Some ''eucentric'',
      msg = None,
      movement_mode = m,
      tilt_movement_enabled = False,
      eb_image = Some \<lparr>data_shape = (h, w)\<rparr>,
      ib_image = Some \<lparr>data_shape = (h, w)\<rparr>,
      image = Some (h, w + w)\<rparr>"

text \<open>
  Collaborators for the examples: the acquisition returns two 32 \<times> 64 images, and the
  pixel-to-realspace conversion is a stand-in that returns its coordinate as reals.
\<close>

definition example_env :: env where
  "example_env =
     \<lparr>take_reference_images = Inr (\<lparr>data_shape = (32, 64)\<rparr>, \<lparr>data_shape = (32, 64)\<rparr>),
      pixel_to_realspace_coordinate = (\<lambda>c img. (fst c, snd c)),
      MICRON_TO_METRE = 1 / 1000000,
      METRE_TO_MICRON = 1000000\<rparr>"

section \<open>Settings records and their mappings (fibsem/structures.py, not among the sources)\<close>

text \<open>
  The tests call \<^verbatim>\<open>__to_dict__\<close> and \<^verbatim>\<open>__from_dict__\<close> of the records of
  \<^verbatim>\<open>fibsem.structures\<close>; the module itself is absent. The records and the two conversions
  are written here from the specification (sections 3 and 4.1). A field that the tests
  leave at \<^verbatim>\<open>None\<close> has an option type. Numbers are reals. Fields carry a prefix where two
  records name a field alike; the keys of the mappings are the specification's names.
\<close>

subsection \<open>Mappings\<close>

text \<open>Modelled from the spec: the "generic nested mapping (string/number/bool keyed)" of
  section 2, with \<open>JNull\<close> for \<^verbatim>\<open>None\<close>. A mapping is an association list of keys and values.\<close>

datatype json =
    JNull
  | JBool bool
  | JInt int
  | JNum real
  | JStr string
  | JObj "(string \<times> json) list"

type_synonym mapping = "(string \<times> json) list"

definition bindE :: "error + 'a \<Rightarrow> ('a \<Rightarrow> error + 'b) \<Rightarrow> error + 'b" where
  "bindE v f = (case v of Inl err \<Rightarrow> Inl err | Inr a \<Rightarrow> f a)"

text \<open>\<^verbatim>\<open>d[key]\<close>: a missing key is a \<^verbatim>\<open>KeyError\<close>, which is a \<^verbatim>\<open>LookupError\<close>.\<close>

definition get_key :: "mapping \<Rightarrow> string \<Rightarrow> error + json" where
  "get_key d k = (case map_of d k of None \<Rightarrow> Inl KeyError | Some v \<Rightarrow> Inr v)"

definition as_num :: "json \<Rightarrow> error + real" where
  "as_num j = (case j of JNum v \<Rightarrow> Inr v | JInt i \<Rightarrow> Inr (real_of_int i) | _ \<Rightarrow> Inl TypeError)"

definition as_int :: "json \<Rightarrow> error + int" where
  "as_int j = (case j of JInt i \<Rightarrow> Inr i | _ \<Rightarrow> Inl TypeError)"

definition as_bool :: "json \<Rightarrow> error + bool" where
  "as_bool j = (case j of JBool b \<Rightarrow> Inr b | _ \<Rightarrow> Inl TypeError)"

definition as_str :: "json \<Rightarrow> error + string" where
  "as_str j = (case j of JStr s \<Rightarrow> Inr s | _ \<Rightarrow> Inl TypeError)"

definition as_obj :: "json \<Rightarrow> error + mapping" where
  "as_obj j = (case j of JObj d \<Rightarrow> Inr d | _ \<Rightarrow> Inl TypeError)"

definition as_opt :: "(json \<Rightarrow> error + 'a) \<Rightarrow> json \<Rightarrow> error + 'a option" where
  "as_opt f j = (case j of JNull \<Rightarrow> Inr None | _ \<Rightarrow> bindE (f j) (\<lambda>a. Inr (Some a)))"

definition of_opt :: "('a \<Rightarrow> json) \<Rightarrow> 'a option \<Rightarrow> json" where
  "of_opt f v = (case v of None \<Rightarrow> JNull | Some a \<Rightarrow> f a)"

definition field :: "mapping \<Rightarrow> string \<Rightarrow> (json \<Rightarrow> error + 'a) \<Rightarrow> error + 'a" where
  "field d k f = bindE (get_key d k) f"

text \<open>Modelled from the spec: "Enum-valued fields (e.g. beam_type) serialize as their name
  string and deserialize via name lookup; unknown names fail with a LookupError-kind
  error" (section 4.1); \<^verbatim>\<open>BeamType\<close> of \<^verbatim>\<open>fibsem.structures\<close> is missing.\<close>

definition BeamType_name :: "BeamType \<Rightarrow> string" where
  "BeamType_name b = (case b of ELECTRON \<Rightarrow> ''ELECTRON'' | ION \<Rightarrow> ''ION'')"

definition BeamType_of_name :: "string \<Rightarrow> error + BeamType" where
  "BeamType_of_name n =
     (if n = ''ELECTRON'' then Inr ELECTRON
      else if n = ''ION'' then Inr ION
      else Inl KeyError)"

definition as_beam :: "json \<Rightarrow> error + BeamType" where
  "as_beam j = bindE (as_str j) BeamType_of_name"

text \<open>
  \<^verbatim>\<open>np.rad2deg\<close> and \<^verbatim>\<open>np.deg2rad\<close> as the conversions of the settings records call them.
  They work on floating-point numbers and round, so they are parameters here and nothing
  is assumed of them: they need not be inverse to each other.
\<close>

record np_angles =
  np_rad2deg :: "real \<Rightarrow> real"
  np_deg2rad :: "real \<Rightarrow> real"

text \<open>\<^verbatim>\<open>d.get(key)\<close> for a key that may be left out: a missing key reads as \<^verbatim>\<open>None\<close>.\<close>

definition field_opt :: "mapping \<Rightarrow> string \<Rightarrow> (json \<Rightarrow> error + 'a) \<Rightarrow> error + 'a option" where
  "field_opt d k f = (case map_of d k of None \<Rightarrow> Inr None | Some j \<Rightarrow> as_opt f j)"

subsection \<open>Point, FibsemRectangle, StagePosition\<close>

text \<open>Modelled from the spec: \<^verbatim>\<open>Point\<close> of \<^verbatim>\<open>fibsem.structures\<close> is missing; "Point: (x, y)
  real-space or pixel offset" (section 3).\<close>

record Point =
  pt_x :: real
  pt_y :: real

text \<open>Modelled from the spec: \<^verbatim>\<open>Point.__to_dict__\<close> is missing; numeric fields pass unchanged.\<close>

definition Point_to_dict :: "Point \<Rightarrow> mapping" where
  "Point_to_dict p = [(''x'', JNum (pt_x p)), (''y'', JNum (pt_y p))]"

text \<open>Modelled from the spec: \<^verbatim>\<open>Point.__from_dict__\<close> is missing.\<close>

definition Point_from_dict :: "mapping \<Rightarrow> error + Point" where
  "Point_from_dict d =
     bindE (field d ''x'' as_num) (\<lambda>vx.
     bindE (field d ''y'' as_num) (\<lambda>vy.
     Inr \<lparr>pt_x = vx, pt_y = vy\<rparr>))"

text \<open>Modelled from the spec: \<^verbatim>\<open>FibsemRectangle\<close> of \<^verbatim>\<open>fibsem.structures\<close> is missing;
  "FibsemRectangle: (left, top, width, height)" (section 3).\<close>

record FibsemRectangle =
  rect_left :: real
  rect_top :: real
  rect_width :: real
  rect_height :: real

text \<open>Modelled from the spec: \<^verbatim>\<open>FibsemRectangle.__to_dict__\<close> is missing.\<close>

definition FibsemRectangle_to_dict :: "FibsemRectangle \<Rightarrow> mapping" where
  "FibsemRectangle_to_dict q =
     [(''left'', JNum (rect_left q)), (''top'', JNum (rect_top q)),
      (''width'', JNum (rect_width q)), (''height'', JNum (rect_height q))]"

text \<open>Modelled from the spec: \<^verbatim>\<open>FibsemRectangle.__from_dict__\<close> is missing.\<close>

definition FibsemRectangle_from_dict :: "mapping \<Rightarrow> error + FibsemRectangle" where
  "FibsemRectangle_from_dict d =
     bindE (field d ''left'' as_num) (\<lambda>vl.
     bindE (field d ''top'' as_num) (\<lambda>vt.
     bindE (field d ''width'' as_num) (\<lambda>vw.
     bindE (field d ''height'' as_num) (\<lambda>vh.
     Inr \<lparr>rect_left = vl, rect_top = vt, rect_width = vw, rect_height = vh\<rparr>))))"

text \<open>Modelled from the spec: the conversion of a \<^verbatim>\<open>StagePosition\<close> to a mapping is missing;
  "StagePosition: x, y, z, r, t (rotation/tilt axes), coordinate_system tag" (section 3),
  with the keys that \<^verbatim>\<open>test_microscope_state_to_dict\<close> reads.\<close>

definition StagePosition_to_dict :: "StagePosition \<Rightarrow> mapping" where
  "StagePosition_to_dict p =
     [(''x'', of_opt JNum (pos_x p)), (''y'', of_opt JNum (pos_y p)),
      (''z'', of_opt JNum (pos_z p)), (''r'', of_opt JNum (pos_r p)),
      (''t'', of_opt JNum (pos_t p)),
      (''coordinate_system'', of_opt JStr (coordinate_system p))]"

text \<open>Modelled from the spec: the conversion of a mapping to a \<^verbatim>\<open>StagePosition\<close> is missing.\<close>

definition StagePosition_from_dict :: "mapping \<Rightarrow> error + StagePosition" where
  "StagePosition_from_dict d =
     bindE (field d ''x'' (as_opt as_num)) (\<lambda>vx.
     bindE (field d ''y'' (as_opt as_num)) (\<lambda>vy.
     bindE (field d ''z'' (as_opt as_num)) (\<lambda>vz.
     bindE (field d ''r'' (as_opt as_num)) (\<lambda>vr.
     bindE (field d ''t'' (as_opt as_num)) (\<lambda>vt.
     bindE (field d ''coordinate_system'' (as_opt as_str)) (\<lambda>vc.
     Inr \<lparr>pos_x = vx, pos_y = vy, pos_z = vz, pos_r = vr, pos_t = vt,
          coordinate_system = vc\<rparr>))))))"

subsection \<open>GammaSettings, BeamSettings, ImageSettings\<close>

text \<open>Modelled from the spec: \<^verbatim>\<open>GammaSettings\<close> of \<^verbatim>\<open>fibsem.structures\<close> is missing;
  "enabled flag, min/max gamma bounds, scale factor, integer threshold" (section 3).\<close>

record GammaSettings =
  gamma_enabled :: bool
  min_gamma :: real
  max_gamma :: real
  scale_factor :: real
  threshold :: int

text \<open>Modelled from the spec: \<^verbatim>\<open>GammaSettings.__to_dict__\<close> is missing.\<close>

definition GammaSettings_to_dict :: "GammaSettings \<Rightarrow> mapping" where
  "GammaSettings_to_dict g =
     [(''enabled'', JBool (gamma_enabled g)), (''min_gamma'', JNum (min_gamma g)),
      (''max_gamma'', JNum (max_gamma g)), (''scale_factor'', JNum (scale_factor g)),
      (''threshold'', JInt (threshold g))]"

text \<open>Modelled from the spec: \<^verbatim>\<open>GammaSettings.__from_dict__\<close> is missing.\<close>

definition GammaSettings_from_dict :: "mapping \<Rightarrow> error + GammaSettings" where
  "GammaSettings_from_dict d =
     bindE (field d ''enabled'' as_bool) (\<lambda>ve.
     bindE (field d ''min_gamma'' as_num) (\<lambda>vmin.
     bindE (field d ''max_gamma'' as_num) (\<lambda>vmax.
     bindE (field d ''scale_factor'' as_num) (\<lambda>vs.
     bindE (field d ''threshold'' as_int) (\<lambda>vt.
     Inr \<lparr>gamma_enabled = ve, min_gamma = vmin, max_gamma = vmax, scale_factor = vs,
          threshold = vt\<rparr>)))))"

text \<open>Modelled from the spec: \<^verbatim>\<open>BeamSettings\<close> of \<^verbatim>\<open>fibsem.structures\<close> is missing;
  "beam_type (ELECTRON | ION), working_distance, beam_current, horizontal field width
  (hfw), resolution (string "WxH"), dwell_time, stigmation" (section 3). The tests build
  one from the beam type alone, so the other fields may be \<^verbatim>\<open>None\<close>.\<close>

record BeamSettings =
  bs_beam_type :: BeamType
  working_distance :: "real option"
  beam_current :: "real option"
  bs_hfw :: "real option"
  bs_resolution :: "string option"
  bs_dwell_time :: "real option"
  stigmation :: "real option"

text \<open>Modelled from the spec: \<^verbatim>\<open>BeamSettings.__to_dict__\<close> is missing.\<close>

definition BeamSettings_to_dict :: "BeamSettings \<Rightarrow> mapping" where
  "BeamSettings_to_dict b =
     [(''beam_type'', JStr (BeamType_name (bs_beam_type b))),
      (''working_distance'', of_opt JNum (working_distance b)),
      (''beam_current'', of_opt JNum (beam_current b)),
      (''hfw'', of_opt JNum (bs_hfw b)),
      (''resolution'', of_opt JStr (bs_resolution b)),
      (''dwell_time'', of_opt JNum (bs_dwell_time b)),
      (''stigmation'', of_opt JNum (stigmation b))]"

text \<open>Modelled from the spec: \<^verbatim>\<open>BeamSettings.__from_dict__\<close> is missing.\<close>

definition BeamSettings_from_dict :: "mapping \<Rightarrow> error + BeamSettings" where
  "BeamSettings_from_dict d =
     bindE (field d ''beam_type'' as_beam) (\<lambda>vb.
     bindE (field d ''working_distance'' (as_opt as_num)) (\<lambda>vw.
     bindE (field d ''beam_current'' (as_opt as_num)) (\<lambda>vc.
     bindE (field d ''hfw'' (as_opt as_num)) (\<lambda>vh.
     bindE (field d ''resolution'' (as_opt as_str)) (\<lambda>vr.
     bindE (field d ''dwell_time'' (as_opt as_num)) (\<lambda>vd.
     bindE (field d ''stigmation'' (as_opt as_num)) (\<lambda>vs.
     Inr \<lparr>bs_beam_type = vb, working_distance = vw, beam_current = vc, bs_hfw = vh,
          bs_resolution = vr, bs_dwell_time = vd, stigmation = vs\<rparr>)))))))"

text \<open>Modelled from the spec: \<^verbatim>\<open>ImageSettings\<close> of \<^verbatim>\<open>fibsem.structures\<close> is missing;
  "resolution, dwell_time, hfw, autocontrast flag, beam_type, embedded GammaSettings, save
  flag, save_path, label, optional reduced-area FibsemRectangle" (section 3). The tests
  pass \<^verbatim>\<open>save_path=None\<close>.\<close>

record ImageSettings =
  resolution :: string
  dwell_time :: real
  hfw :: real
  autocontrast :: bool
  beam_type :: BeamType
  gamma :: GammaSettings
  save_flag :: bool
  save_path :: "string option"
  label :: string
  reduced_area :: "FibsemRectangle option"

text \<open>Modelled from the spec: \<^verbatim>\<open>ImageSettings.__to_dict__\<close> is missing; "Nested records
  (e.g. ImageSettings.gamma) serialize as nested mappings" (section 4.1).\<close>

definition ImageSettings_to_dict :: "ImageSettings \<Rightarrow> mapping" where
  "ImageSettings_to_dict s =
     [(''resolution'', JStr (resolution s)),
      (''dwell_time'', JNum (dwell_time s)),
      (''hfw'', JNum (hfw s)),
      (''autocontrast'', JBool (autocontrast s)),
      (''beam_type'', JStr (BeamType_name (beam_type s))),
      (''gamma'', JObj (GammaSettings_to_dict (gamma s))),
      (''save'', JBool (save_flag s)),
      (''save_path'', of_opt JStr (save_path s)),
      (''label'', JStr (label s)),
      (''reduced_area'', of_opt (\<lambda>q. JObj (FibsemRectangle_to_dict q)) (reduced_area s))]"

text \<open>Modelled from the spec: \<^verbatim>\<open>ImageSettings.__from_dict__\<close> is missing. The reduced
  area is optional (section 3): \<^verbatim>\<open>test_image_settings_from_dict\<close> reads a mapping without
  that key.\<close>

definition ImageSettings_from_dict :: "mapping \<Rightarrow> error + ImageSettings" where
  "ImageSettings_from_dict d =
     bindE (field d ''resolution'' as_str) (\<lambda>vr.
     bindE (field d ''dwell_time'' as_num) (\<lambda>vd.
     bindE (field d ''hfw'' as_num) (\<lambda>vh.
     bindE (field d ''autocontrast'' as_bool) (\<lambda>va.
     bindE (field d ''beam_type'' as_beam) (\<lambda>vb.
     bindE (field d ''gamma'' (\<lambda>j. bindE (as_obj j) GammaSettings_from_dict)) (\<lambda>vg.
     bindE (field d ''save'' as_bool) (\<lambda>vs.
     bindE (field d ''save_path'' (as_opt as_str)) (\<lambda>vp.
     bindE (field d ''label'' as_str) (\<lambda>vl.
     bindE (field_opt d ''reduced_area''
              (\<lambda>j. bindE (as_obj j) FibsemRectangle_from_dict)) (\<lambda>va2.
     Inr \<lparr>resolution = vr, dwell_time = vd, hfw = vh, autocontrast = va, beam_type = vb,
          gamma = vg, save_flag = vs, save_path = vp, label = vl,
          reduced_area = va2\<rparr>))))))))))"

subsection \<open>MicroscopeState, MillingSettings\<close>

text \<open>Modelled from the spec: \<^verbatim>\<open>MicroscopeState\<close> of \<^verbatim>\<open>fibsem.structures\<close> is missing;
  "timestamp (unix epoch float), absolute stage position, eb_settings, ib_settings"
  (section 3).\<close>

record MicroscopeState =
  timestamp :: real
  absolute_position :: StagePosition
  eb_settings :: BeamSettings
  ib_settings :: BeamSettings

text \<open>Modelled from the spec: \<^verbatim>\<open>MicroscopeState.__to_dict__\<close> is missing.\<close>

definition MicroscopeState_to_dict :: "MicroscopeState \<Rightarrow> mapping" where
  "MicroscopeState_to_dict s =
     [(''timestamp'', JNum (timestamp s)),
      (''absolute_position'', JObj (StagePosition_to_dict (absolute_position s))),
      (''eb_settings'', JObj (BeamSettings_to_dict (eb_settings s))),
      (''ib_settings'', JObj (BeamSettings_to_dict (ib_settings s)))]"

text \<open>Modelled from the spec: \<^verbatim>\<open>MicroscopeState.__from_dict__\<close> is missing.\<close>

definition MicroscopeState_from_dict :: "mapping \<Rightarrow> error + MicroscopeState" where
  "MicroscopeState_from_dict d =
     bindE (field d ''timestamp'' as_num) (\<lambda>vt.
     bindE (field d ''absolute_position''
              (\<lambda>j. bindE (as_obj j) StagePosition_from_dict)) (\<lambda>vp.
     bindE (field d ''eb_settings'' (\<lambda>j. bindE (as_obj j) BeamSettings_from_dict)) (\<lambda>ve.
     bindE (field d ''ib_settings'' (\<lambda>j. bindE (as_obj j) BeamSettings_from_dict)) (\<lambda>vi.
     Inr \<lparr>timestamp = vt, absolute_position = vp, eb_settings = ve,
          ib_settings = vi\<rparr>))))"

text \<open>Modelled from the spec: \<^verbatim>\<open>MillingSettings\<close> of \<^verbatim>\<open>fibsem.structures\<close> is missing;
  "width, height, depth, rotation (radians internally; serialized form in degrees),
  centre_x, centre_y, milling_current, scan_direction, cleaning_cross_section flag"
  (section 3).\<close>

record MillingSettings =
  width :: real
  height :: real
  depth :: real
  rotation :: real
  centre_x :: real
  centre_y :: real
  milling_current :: real
  scan_direction :: string
  cleaning_cross_section :: bool

text \<open>Modelled from the spec: \<^verbatim>\<open>MillingSettings.__to_dict__\<close> is missing; "Numeric fields
  are passed through unchanged except MillingSettings.rotation, which is serialized in
  degrees but stored/compared internally in radians" (section 4.1).\<close>

definition MillingSettings_to_dict :: "np_angles \<Rightarrow> MillingSettings \<Rightarrow> mapping" where
  "MillingSettings_to_dict np s =
     [(''width'', JNum (width s)),
      (''height'', JNum (height s)),
      (''depth'', JNum (depth s)),
      (''rotation'', JNum (np_rad2deg np (rotation s))),
      (''centre_x'', JNum (centre_x s)),
      (''centre_y'', JNum (centre_y s)),
      (''milling_current'', JNum (milling_current s)),
      (''scan_direction'', JStr (scan_direction s)),
      (''cleaning_cross_section'', JBool (cleaning_cross_section s))]"

text \<open>Modelled from the spec: \<^verbatim>\<open>MillingSettings.__from_dict__\<close> is missing; the tests
  assert \<^verbatim>\<open>rotation == np.deg2rad(d["rotation"])\<close> for its result.\<close>

definition MillingSettings_from_dict :: "np_angles \<Rightarrow> mapping \<Rightarrow> error + MillingSettings" where
  "MillingSettings_from_dict np d =
     bindE (field d ''width'' as_num) (\<lambda>vw.
     bindE (field d ''height'' as_num) (\<lambda>vh.
     bindE (field d ''depth'' as_num) (\<lambda>vd.
     bindE (field d ''rotation'' as_num) (\<lambda>vr.
     bindE (field d ''centre_x'' as_num) (\<lambda>vx.
     bindE (field d ''centre_y'' as_num) (\<lambda>vy.
     bindE (field d ''milling_current'' as_num) (\<lambda>vm.
     bindE (field d ''scan_direction'' as_str) (\<lambda>vs.
     bindE (field d ''cleaning_cross_section'' as_bool) (\<lambda>vc.
     Inr \<lparr>width = vw, height = vh, depth = vd, rotation = np_deg2rad np vr, centre_x = vx,
          centre_y = vy, milling_current = vm, scan_direction = vs,
          cleaning_cross_section = vc\<rparr>)))))))))"

section \<open>The image container (fibsem/fibsemImage.py, not among the sources)\<close>

text \<open>
  The tests build \<^verbatim>\<open>FibsemImage\<close> values; the module itself is absent. The container
  and its construction are written here from the specification (sections 3, 4.2 and 6).
\<close>

text \<open>Modelled from the spec: \<^verbatim>\<open>FibsemImageMetadata\<close> of \<^verbatim>\<open>fibsem.fibsemImage\<close> is
  missing; "image_settings, a version string, pixel_size (Point, physical size per
  pixel), microscope_state" (section 3).\<close>

record FibsemImageMetadata =
  image_settings :: ImageSettings
  version :: string
  pixel_size :: Point
  microscope_state :: MicroscopeState

text \<open>Modelled from the spec: \<^verbatim>\<open>FibsemImageMetadata.__to_dict__\<close> is missing; a "serialized
  mapping matching the record schemas plus a version field" (section 6).\<close>

definition FibsemImageMetadata_to_dict :: "FibsemImageMetadata \<Rightarrow> mapping" where
  "FibsemImageMetadata_to_dict md =
     [(''image_settings'', JObj (ImageSettings_to_dict (image_settings md))),
      (''version'', JStr (version md)),
      (''pixel_size'', JObj (Point_to_dict (pixel_size md))),
      (''microscope_state'', JObj (MicroscopeState_to_dict (microscope_state md)))]"

text \<open>Modelled from the spec: \<^verbatim>\<open>FibsemImageMetadata.__from_dict__\<close> is missing; a version
  other than the expected one is not rejected (section 6).\<close>

definition FibsemImageMetadata_from_dict :: "mapping \<Rightarrow> error + FibsemImageMetadata" where
  "FibsemImageMetadata_from_dict d =
     bindE (field d ''image_settings'' (\<lambda>j. bindE (as_obj j) ImageSettings_from_dict)) (\<lambda>vi.
     bindE (field d ''version'' as_str) (\<lambda>vv.
     bindE (field d ''pixel_size'' (\<lambda>j. bindE (as_obj j) Point_from_dict)) (\<lambda>vp.
     bindE (field d ''microscope_state''
              (\<lambda>j. bindE (as_obj j) MicroscopeState_from_dict)) (\<lambda>vm.
     Inr \<lparr>image_settings = vi, version = vv, pixel_size = vp,
          microscope_state = vm\<rparr>))))"

text \<open>
  A numpy array: its element type, its shape (one extent per dimension) and its elements
  in row-major order.
\<close>

datatype dtype = UInt8 | UInt16 | Int32 | Float32 | Float64

record ndarray =
  arr_dtype :: dtype
  arr_shape :: "nat list"
  arr_elems :: "real list"

definition ndim :: "ndarray \<Rightarrow> nat" where
  "ndim a = length (arr_shape a)"

text \<open>Modelled from the spec: \<^verbatim>\<open>FibsemImage\<close> of \<^verbatim>\<open>fibsem.fibsemImage\<close> is missing; it
  "owns a 2-D (or grayscale) pixel array plus an attached FibsemImageMetadata; metadata
  is optional" (section 3).\<close>

record FibsemImage =
  data :: ndarray
  metadata :: "FibsemImageMetadata option"

text \<open>Modelled from the spec: \<^verbatim>\<open>FibsemImage.__init__\<close> is missing; "Construction-time
  validation: fails with a ValueError-kind error if the input array has more than 2
  dimensions" (section 4.2).\<close>

definition FibsemImage_init :: "ndarray \<Rightarrow> FibsemImageMetadata option \<Rightarrow> error + FibsemImage" where
  "FibsemImage_init a md =
     (if 2 < ndim a then Inl ValueError else Inr \<lparr>data = a, metadata = md\<rparr>)"

subsection \<open>Example values, from the fixtures of the tests\<close>



definition gamma_settings :: GammaSettings where
  "gamma_settings =
     \<lparr>gamma_enabled = True, min_gamma = 5 / 10, max_gamma = 18 / 10,
      scale_factor = 1 / 100, threshold = 46\<rparr>"



definition array_2x3 :: ndarray where
  "array_2x3 = \<lparr>arr_dtype = UInt8, arr_shape = [2, 3], arr_elems = [0, 255, 7, 1, 2, 3]\<rparr>"

definition array_2x2x2 :: ndarray where
  "array_2x2x2 =
     \<lparr>arr_dtype = UInt16, arr_shape = [2, 2, 2], arr_elems = [0, 1, 2, 3, 4, 5, 6, 7]\<rparr>"

text \<open>The mapping of \<^verbatim>\<open>test_image_settings_from_dict\<close>, and the record it stands for.\<close>

definition image_settings_dict :: mapping where
  "image_settings_dict =
     [(''resolution'', JStr ''1536x1024''), (''dwell_time'', JNum (1 / 1000000)),
      (''hfw'', JNum (150 / 1000000)), (''autocontrast'', JBool True),
      (''beam_type'', JStr ''ELECTRON''),
      (''gamma'',
       JObj [(''enabled'', JBool True), (''min_gamma'', JNum (5 / 10)),
             (''max_gamma'', JNum (18 / 10)), (''scale_factor'', JNum (1 / 100)),
             (''threshold'', JInt 46)]),
      (''save'', JBool False), (''save_path'', JStr ''path''), (''label'', JStr ''label'')]"

definition image_settings_of_test :: ImageSettings where
  "image_settings_of_test =
     \<lparr>resolution = ''1536x1024'', dwell_time = 1 / 1000000, hfw = 150 / 1000000,
      autocontrast = True, beam_type = ELECTRON, gamma = gamma_settings,
      save_flag = False, save_path = Some ''path'', label = ''label'',
      reduced_area = None\<rparr>"


section \<open>Properties of the click resolution\<close>

lemma get_data_from_coord_electron:
  assumes "image self = Some (H, W)" and "eb_image self = Some eb"
    and "0 < row" and "row < real H" and "0 < col" and "col < real (W div 2)"
  shows "get_data_from_coord self (row, col) = Inr (Some ELECTRON, Some eb, (row, col))"
  using assms by (simp add: get_data_from_coord_def Let_def)

lemma get_data_from_coord_outside:
  assumes "image self = Some (H, W)" and "real W \<le> col \<or> real H \<le> row"
  shows "get_data_from_coord self (row, col) = Inr (None, None, (row, col))"
  using assms by (auto simp add: get_data_from_coord_def Let_def)

lemma get_data_from_coord_ion_iff:
  assumes "image self = Some (H, W)" and "ib_image self = Some ib"
  shows "get_data_from_coord self (row, col) = Inr (Some ION, Some ib, (row, col - real (W div 2)))
         \<longleftrightarrow> 0 < row \<and> row < real H \<and> real (W div 2) \<le> col \<and> real H < col \<and> col < real W"
  using assms by (auto simp add: get_data_from_coord_def Let_def split: option.splits)

text \<open>
  C1 (at the input where the code departs from it). On the 64 \<times> 64 composite of the
  specification's example, the click at row 10, column 50 lies in the right half, and
  \<open>get_data_from_coord\<close> answers "no beam": the column 50 is tested against
  \<^verbatim>\<open>eb_shape[0] = 64\<close>, the height, where the half width 32 was meant.
\<close>

theorem C1_right_half_click_unresolved:
  "get_data_from_coord (example_dialog 64 32 Stable) (10, 50) = Inr (None, None, (10, 50))"
  by (simp add: get_data_from_coord_def example_dialog_def Let_def)

text \<open>
  C9. Whatever the composite, a click in row 0 or in column 0 resolves to no beam, with
  the coordinate returned as it came.
\<close>

theorem C9_index_zero_no_beam:
  assumes "image self = Some (H, W)" and "row = 0 \<or> col = 0"
  shows "get_data_from_coord self (row, col) = Inr (None, None, (row, col))"
  using assms by (auto simp add: get_data_from_coord_def Let_def)

theorem C9_index_zero_no_beam_witness:
  "get_data_from_coord (example_dialog 64 32 Stable) (0, 10) = Inr (None, None, (0, 10))
   \<and> get_data_from_coord (example_dialog 64 32 Stable) (10, 0) = Inr (None, None, (10, 0))"
proof -
  have img: "image (example_dialog 64 32 Stable) = Some (64, 64)"
    by (simp add: example_dialog_def)
  have a: "(0::real) = 0 \<or> (10::real) = 0" by simp
  have b: "(10::real) = 0 \<or> (0::real) = 0" by simp
  show ?thesis
    using C9_index_zero_no_beam [OF img a] C9_index_zero_no_beam [OF img b] by simp
qed

section \<open>Properties of the handlers\<close>

lemma update_displays_no_move: "filter is_stage_move (snd (update_displays e self)) = []"
  by (simp add: update_displays_def Let_def split: sum.splits prod.splits)

lemma update_displays_movement_mode:
  "movement_mode (fst (update_displays e self)) = movement_mode self"
  by (simp add: update_displays_def Let_def split: sum.splits prod.splits)

lemma update_displays_cases:
  obtains self1 es where "update_displays e self = (self1, es)"
    and "movement_mode self1 = movement_mode self" and "filter is_stage_move es = []"
  using update_displays_no_move [of e self] update_displays_movement_mode [of e self]
  by (cases "update_displays e self") simp

text \<open>
  C2. A double click that resolves to beam \<open>bt\<close> with local coordinate \<open>c\<close>, while the
  mode combo box names mode \<open>m\<close>, returns normally with \<open>m\<close> as the dialog's mode, and
  the one stage move among its effects is the eucentric correction with \<open>- dy\<close> when
  \<open>bt\<close> is ION and \<open>m\<close> is Eucentric, and the corrected relative move with \<open>dx\<close>, \<open>dy\<close>
  and \<open>bt\<close> in every other case.
\<close>

theorem C2_double_click_dispatch:
  assumes "get_data_from_coord self coords = Inr (Some bt, Some img, c)"
    and "MovementMode_of_name (currentText (comboBox_movement_mode self)) = Inr m"
    and "pixel_to_realspace_coordinate e (snd c, fst c) img = (dx, dy)"
  shows "case double_click e self coords of
           Inl err \<Rightarrow> False
         | Inr (self', es) \<Rightarrow>
             movement_mode self' = m
             \<and> filter is_stage_move es =
                 [if bt = ION \<and> m = Eucentric then MoveStageEucentricCorrection (- dy)
                  else MoveStageRelativeWithCorrectedMovement dx dy bt]"
proof -
  obtain self1 es where ud: "update_displays e (self\<lparr>movement_mode := m\<rparr>) = (self1, es)"
    and mm: "movement_mode self1 = m" and nomove: "filter is_stage_move es = []"
    by (rule update_displays_cases [of e "self\<lparr>movement_mode := m\<rparr>"]) simp
  show ?thesis
    using assms ud mm nomove by (simp add: double_click_def Let_def)
qed

theorem C2_double_click_dispatch_witness:
  "(case double_click example_env (example_dialog 32 64 Eucentric) (10, 100) of
      Inl err \<Rightarrow> False
    | Inr (self', es) \<Rightarrow>
        movement_mode self' = Eucentric
        \<and> filter is_stage_move es = [MoveStageEucentricCorrection (- 10)])
   \<and> (case double_click example_env (example_dialog 32 64 Eucentric) (10, 20) of
      Inl err \<Rightarrow> False
    | Inr (self', es) \<Rightarrow>
        movement_mode self' = Eucentric
        \<and> filter is_stage_move es = [MoveStageRelativeWithCorrectedMovement 20 10 ELECTRON])"
proof -
  have ion: "get_data_from_coord (example_dialog 32 64 Eucentric) (10, 100)
             = Inr (Some ION, Some \<lparr>data_shape = (32, 64)\<rparr>, (10, 36))"
    by (simp add: get_data_from_coord_def example_dialog_def Let_def)
  have el: "get_data_from_coord (example_dialog 32 64 Eucentric) (10, 20)
            = Inr (Some ELECTRON, Some \<lparr>data_shape = (32, 64)\<rparr>, (10, 20))"
    by (simp add: get_data_from_coord_def example_dialog_def Let_def)
  have mode: "MovementMode_of_name (currentText (comboBox_movement_mode (example_dialog 32 64 Eucentric)))
              = Inr Eucentric"
    by (simp add: MovementMode_of_name_def currentText_def example_dialog_def mode_name_def)
  have p1: "pixel_to_realspace_coordinate example_env (snd (10::real, 36::real), fst (10::real, 36::real))
              \<lparr>data_shape = (32, 64)\<rparr> = (36, 10)"
    by (simp add: example_env_def)
  have p2: "pixel_to_realspace_coordinate example_env (snd (10::real, 20::real), fst (10::real, 20::real))
              \<lparr>data_shape = (32, 64)\<rparr> = (20, 10)"
    by (simp add: example_env_def)
  have a: "case double_click example_env (example_dialog 32 64 Eucentric) (10, 100) of
      Inl err \<Rightarrow> False
    | Inr (self', es) \<Rightarrow>
        movement_mode self' = Eucentric
        \<and> filter is_stage_move es = [MoveStageEucentricCorrection (- 10)]"
    using C2_double_click_dispatch [OF ion mode p1] by (simp split: sum.splits prod.splits)
  have b: "case double_click example_env (example_dialog 32 64 Eucentric) (10, 20) of
      Inl err \<Rightarrow> False
    | Inr (self', es) \<Rightarrow>
        movement_mode self' = Eucentric
        \<and> filter is_stage_move es = [MoveStageRelativeWithCorrectedMovement 20 10 ELECTRON]"
    using C2_double_click_dispatch [OF el mode p2] by (simp split: sum.splits prod.splits)
  show ?thesis using a b by (rule conjI)
qed

text \<open>
  C5. A double click that resolves to no beam returns normally, leaves the dialog as it
  was (the mode included), and its only effect is the notice: no stage move.
\<close>

theorem C5_double_click_outside:
  assumes "get_data_from_coord self coords = Inr (None, a, c)"
  shows "double_click e self coords = Inr (self, [ShowInfo outside_msg])
         \<and> filter is_stage_move [ShowInfo outside_msg] = []"
  using assms by (simp add: double_click_def)

theorem C5_double_click_outside_witness:
  "double_click example_env (example_dialog 64 32 Eucentric) (70, 10)
     = Inr (example_dialog 64 32 Eucentric, [ShowInfo outside_msg])"
proof -
  have h: "get_data_from_coord (example_dialog 64 32 Eucentric) (70, 10)
           = Inr (None, None, (70, 10))"
    by (simp add: get_data_from_coord_def example_dialog_def Let_def)
  show ?thesis
    using C5_double_click_outside [OF h, of example_env] by simp
qed

lemma single_click_other_mode:
  assumes "movement_mode self \<noteq> Needle \<or> event_type \<noteq> ''mouse_press''"
  shows "single_click self event_type coords = Inr (self, [])"
  using assms by (auto simp add: single_click_def)

lemma unpack2_tuple3: "unpack2 (tuple3 res) = Inl ValueError"
  by (cases res) (simp add: unpack2_def tuple3_def)

lemma single_click_needle_raises:
  assumes "movement_mode self = Needle"
  shows "isl (single_click self ''mouse_press'' coords)"
  using assms by (simp add: single_click_def unpack2_tuple3 split: sum.splits)

text \<open>
  C7 (at the input where the code departs from it). In Needle mode a mouse press at
  row 10, column 10 of the 64 \<times> 64 composite raises \<^verbatim>\<open>ValueError\<close>: the three values
  that \<open>get_data_from_coord\<close> returns are unpacked into two names, before the combo box
  is read and before anything is logged.
\<close>

theorem C7_single_click_needle_value_error:
  "single_click (example_dialog 64 32 Needle) ''mouse_press'' (10, 10) = Inl ValueError"
  by (simp add: single_click_def get_data_from_coord_def example_dialog_def Let_def
      unpack2_tuple3)

lemma tilt_button_dead_when_disabled:
  assumes "\<not> tilt_movement_enabled self0"
  shows "pushButton_tilt_stage_clicked e (fst (setup_connections e0 self0))
         = (fst (setup_connections e0 self0), [])"
  using assms by (simp add: pushButton_tilt_stage_clicked_def setup_connections_def Let_def)





lemma msg_dict_lookup_missing:
  assumes "mtype \<noteq> Some ''eucentric''" and "mtype \<noteq> Some ''alignment''"
  shows "msg_dict_lookup mtype = Inl KeyError"
  using assms by (cases mtype) (simp_all add: msg_dict_lookup_def msg_dict_def)

lemma set_message_key_error:
  assumes "mtype \<noteq> Some ''eucentric''" and "mtype \<noteq> Some ''alignment''"
  shows "set_message self mtype None = Inl KeyError"
  using msg_dict_lookup_missing [OF assms] by (simp add: set_message_def)

lemma setup_connections_msg:
  "msg_type (fst (setup_connections e self)) = msg_type self
   \<and> msg (fst (setup_connections e self)) = msg self"
  by (simp add: setup_connections_def Let_def)

lemma init_key_error:
  assumes "mtype \<noteq> Some ''eucentric''" and "mtype \<noteq> Some ''alignment''"
  shows "init e ui h0 mtype None viewer = (if viewer then Inl KeyError else Inl AttributeError)"
proof (cases viewer)
  case False
  then show ?thesis by (simp add: init_def)
next
  case True
  let ?fresh = "\<lparr>doubleSpinBox_hfw = doubleSpinBox_hfw ui,
                doubleSpinBox_tilt_degrees = doubleSpinBox_tilt_degrees ui,
                comboBox_movement_mode = comboBox_movement_mode ui,
                comboBox_needle_coordinate = comboBox_needle_coordinate ui,
                label_message = label_message ui,
                needle_coordinate_visible = needle_coordinate_visible ui,
                tilt_widgets_visible = tilt_widgets_visible ui,
                pushButton_tilt_stage_enabled = pushButton_tilt_stage_enabled ui,
                pushButton_tilt_stage_connected = pushButton_tilt_stage_connected ui,
                settings_image_hfw = h0,
                msg_type = mtype,
                msg = None,
                movement_mode = Stable,
                tilt_movement_enabled = (mtype = Some ''alignment''),
                eb_image = None,
                ib_image = None,
                image = None\<rparr>"
  obtain self1 es1 where sc: "setup_connections e ?fresh = (self1, es1)"
    by (cases "setup_connections e ?fresh")
  have "msg_type self1 = mtype \<and> msg self1 = None"
    using setup_connections_msg [of e ?fresh] sc by simp
  then show ?thesis
    using True sc set_message_key_error [OF assms, of self1] by (simp add: init_def Let_def)
qed

text \<open>
  C10. With no message text and a message type other than "eucentric" and "alignment"
  (the default \<^verbatim>\<open>None\<close> is one), \<open>set_message\<close> raises \<^verbatim>\<open>KeyError\<close>. The constructor
  calls it with its own arguments, so constructing the dialog fails: with
  \<^verbatim>\<open>KeyError\<close> when a viewer is given, and in any case with some exception.
\<close>

theorem C10_set_message_key_error:
  assumes "mtype \<noteq> Some ''eucentric''" and "mtype \<noteq> Some ''alignment''"
  shows "set_message self mtype None = Inl KeyError
         \<and> init e ui h0 mtype None True = Inl KeyError
         \<and> isl (init e ui h0 mtype None viewer)"
  using set_message_key_error [OF assms, of self] init_key_error [OF assms, of e ui h0 True]
    init_key_error [OF assms, of e ui h0 viewer]
  by simp

theorem C10_set_message_key_error_witness:
  "set_message (example_dialog 64 32 Stable) None None = Inl KeyError
   \<and> init example_env ui0 (150 / 1000000) None None True = Inl KeyError"
proof -
  have h1: "(None :: string option) \<noteq> Some ''eucentric''" by simp
  have h2: "(None :: string option) \<noteq> Some ''alignment''" by simp
  show ?thesis
    using C10_set_message_key_error [OF h1 h2] by simp
qed

section \<open>Properties of the settings records and of the image container\<close>

lemmas getters = field_def get_key_def bindE_def as_num_def as_int_def as_bool_def as_str_def
  as_obj_def as_opt_def of_opt_def as_beam_def

lemma BeamType_name_roundtrip: "BeamType_of_name (BeamType_name b) = Inr b"
  by (cases b) (simp_all add: BeamType_name_def BeamType_of_name_def)

lemma Point_roundtrip: "Point_from_dict (Point_to_dict p) = Inr p"
  by (simp add: Point_from_dict_def Point_to_dict_def getters)

lemma FibsemRectangle_roundtrip: "FibsemRectangle_from_dict (FibsemRectangle_to_dict q) = Inr q"
  by (simp add: FibsemRectangle_from_dict_def FibsemRectangle_to_dict_def getters)

lemma StagePosition_roundtrip: "StagePosition_from_dict (StagePosition_to_dict p) = Inr p"
  by (simp add: StagePosition_from_dict_def StagePosition_to_dict_def getters split: option.splits)

lemma GammaSettings_roundtrip: "GammaSettings_from_dict (GammaSettings_to_dict g) = Inr g"
  by (simp add: GammaSettings_from_dict_def GammaSettings_to_dict_def getters)

lemma BeamSettings_roundtrip: "BeamSettings_from_dict (BeamSettings_to_dict b) = Inr b"
  by (simp add: BeamSettings_from_dict_def BeamSettings_to_dict_def getters BeamType_name_roundtrip
      split: option.splits)

lemma ImageSettings_roundtrip: "ImageSettings_from_dict (ImageSettings_to_dict s) = Inr s"
  by (simp add: ImageSettings_from_dict_def ImageSettings_to_dict_def getters field_opt_def
      BeamType_name_roundtrip GammaSettings_roundtrip FibsemRectangle_roundtrip
      split: option.splits)

lemma MicroscopeState_roundtrip: "MicroscopeState_from_dict (MicroscopeState_to_dict s) = Inr s"
  by (simp add: MicroscopeState_from_dict_def MicroscopeState_to_dict_def getters
      StagePosition_roundtrip BeamSettings_roundtrip)

lemma MillingSettings_roundtrip:
  "MillingSettings_from_dict np (MillingSettings_to_dict np s)
   = Inr (s\<lparr>rotation := np_deg2rad np (np_rad2deg np (rotation s))\<rparr>)"
  by (simp add: MillingSettings_from_dict_def MillingSettings_to_dict_def getters)

lemma MillingSettings_roundtrip_identity_iff:
  "MillingSettings_from_dict np (MillingSettings_to_dict np s) = Inr s
   \<longleftrightarrow> np_deg2rad np (np_rad2deg np (rotation s)) = rotation s"
proof
  assume "MillingSettings_from_dict np (MillingSettings_to_dict np s) = Inr s"
  then have "s\<lparr>rotation := np_deg2rad np (np_rad2deg np (rotation s))\<rparr> = s"
    by (simp add: MillingSettings_roundtrip)
  then have "rotation (s\<lparr>rotation := np_deg2rad np (np_rad2deg np (rotation s))\<rparr>) = rotation s"
    by simp
  then show "np_deg2rad np (np_rad2deg np (rotation s)) = rotation s"
    by simp
next
  assume "np_deg2rad np (np_rad2deg np (rotation s)) = rotation s"
  then show "MillingSettings_from_dict np (MillingSettings_to_dict np s) = Inr s"
    by (simp add: MillingSettings_roundtrip)
qed

lemma FibsemImageMetadata_roundtrip:
  "FibsemImageMetadata_from_dict (FibsemImageMetadata_to_dict md) = Inr md"
  by (simp add: FibsemImageMetadata_from_dict_def FibsemImageMetadata_to_dict_def getters
      ImageSettings_roundtrip Point_roundtrip MicroscopeState_roundtrip)



lemma ImageSettings_from_dict_test:
  "ImageSettings_from_dict image_settings_dict = Inr image_settings_of_test"
  by (simp add: ImageSettings_from_dict_def image_settings_dict_def image_settings_of_test_def
      GammaSettings_from_dict_def gamma_settings_def getters field_opt_def
      BeamType_of_name_def)




text \<open>
  C6. Constructing the container from an array of more than two dimensions fails with
  \<^verbatim>\<open>ValueError\<close>; constructing it from a two-dimensional array succeeds and keeps the
  array and the metadata.
\<close>

theorem C6_construction_check:
  "(2 < ndim A \<longrightarrow> FibsemImage_init A M = Inl ValueError)
   \<and> (ndim A = 2 \<longrightarrow> FibsemImage_init A M = Inr \<lparr>data = A, metadata = M\<rparr>)"
  by (simp add: FibsemImage_init_def)

theorem C6_construction_check_witness:
  "FibsemImage_init array_2x2x2 None = Inl ValueError
   \<and> FibsemImage_init array_2x3 None = Inr \<lparr>data = array_2x3, metadata = None\<rparr>"
proof -
  have a: "2 < ndim array_2x2x2" by (simp add: ndim_def array_2x2x2_def)
  have b: "ndim array_2x3 = 2" by (simp add: ndim_def array_2x3_def)
  show ?thesis
    using C6_construction_check [of array_2x2x2 None] C6_construction_check [of array_2x3 None] a b
    by simp
qed

end
